theory Spec2Isabelle
  imports Complex_Main "HOL-Library.Sublist"
begin

section \<open>The observer service: data model\<close>

text \<open>
  The development follows \<^verbatim>\<open>observer_service.py\<close>. Module-level globals become the
  fields of one record that every handler takes and returns. A reading of the clock
  (\<^verbatim>\<open>time.time()\<close>) is a parameter of the handler that makes it, and \<^verbatim>\<open>int(...)\<close>
  truncates toward zero. A queue is the list of its pending items, oldest first; the
  sentinel \<^verbatim>\<open>None\<close> is \<open>None\<close> and an event \<open>e\<close> is \<open>Some e\<close>.
\<close>

definition REGION_SIZE :: int where
  "REGION_SIZE = 100"

definition KEY_BUFFER_TIMEOUT :: real where
  "KEY_BUFFER_TIMEOUT = 3 / 2"

definition AUDIO_SAMPLE_RATE :: nat where
  "AUDIO_SAMPLE_RATE = 16000"

definition DATA_DIR :: string where
  "DATA_DIR = ''data/raw''"

definition py_int :: "real \<Rightarrow> int" where
  "py_int t = (if t < 0 then \<lceil>t\<rceil> else \<lfloor>t\<rfloor>)"

text \<open>
  A key delivered by the keyboard hook: a \<^verbatim>\<open>KeyCode\<close> carries the attribute \<^verbatim>\<open>char\<close>
  (one character, or \<^verbatim>\<open>None\<close>); a member \<^verbatim>\<open>keyboard.Key.name\<close> has no such attribute,
  and reading it raises \<^verbatim>\<open>AttributeError\<close>.
\<close>

datatype key = KeyCode "char option" | Key string

definition PUSH_TO_TALK_KEY :: key where
  "PUSH_TO_TALK_KEY = Key ''ctrl_r''"

text \<open>The dictionaries put on the log queue, one constructor for each value of \<^verbatim>\<open>"event"\<close>.\<close>

datatype event =
    Click int string int int "string option" "string option"
  | TypeEv int string
  | KeyPress int string
  | AudioCommand int string real

record click_data =
  cd_timestamp :: int
  cd_button :: string
  cd_x :: int
  cd_y :: int

record region =
  r_top :: int
  r_left :: int
  r_width :: int
  r_height :: int

record monitor =
  m_left :: int
  m_top :: int
  m_width :: int
  m_height :: int

text \<open>What is passed to \<^verbatim>\<open>_output_callback\<close>: one constructor for each format string.\<close>

datatype message =
    ErrorLoggingEvent
  | LogWorkerStopping
  | NoPrimaryMonitor
  | ErrorGrabbingRegion region
  | ErrorCapturingFullScreen
  | ErrorSavingRegionImage
  | ScreenshotWorkerStopping
  | LoggedTyping string
  | RecordingStopped
  | RecordingAudio
  | AudioInputStatus
  | PortAudioErrorDuringRecording
  | CheckMicrophone
  | UnexpectedRecordingError
  | SavedAudio string
  | ErrorSavingAudio string
  | StartingObserver
  | LogFileIs
  | PushToTalkKeyIs
  | ObserverRunning
  | MainLoopReceivedStop
  | WaitingForWorkers
  | FlushingFinalKeyBuffer
  | ObserverStopped
  | StopSignalReceived

text \<open>
  Where a worker thread stands: not started, at the test of its \<^verbatim>\<open>while\<close> loop, inside
  \<^verbatim>\<open>queue.get(timeout=0.5)\<close>, or past the loop.
\<close>

datatype thread_state = NotStarted | AtLoopTest | InGet | Finished

record observer =
  key_buffer :: "char list"
  last_key_time :: "real option"
  buffer_flush_timer :: bool
  screenshot_queue :: "click_data option list"
  log_queue :: "event option list"
  is_recording :: bool
  audio_frames :: "real list list"
  stop_recording_flag :: bool
  observer_stop_event :: bool
  mouse_listener :: bool
  keyboard_listener :: bool
  log_thread :: thread_state
  screenshot_thread :: thread_state
  audio_threads_started :: nat
  output_log :: "message list"
  log_file :: "event list"
  media_files :: "string list"

definition initial_observer :: observer where
  "initial_observer =
     \<lparr>key_buffer = [], last_key_time = None, buffer_flush_timer = False,
      screenshot_queue = [], log_queue = [], is_recording = False, audio_frames = [],
      stop_recording_flag = False, observer_stop_event = False,
      mouse_listener = False, keyboard_listener = False,
      log_thread = NotStarted, screenshot_thread = NotStarted,
      audio_threads_started = 0, output_log = [], log_file = [], media_files = []\<rparr>"

definition output_callback :: "message \<Rightarrow> observer \<Rightarrow> observer" where
  "output_callback m s = s\<lparr>output_log := output_log s @ [m]\<rparr>"

definition log_queue_put :: "event option \<Rightarrow> observer \<Rightarrow> observer" where
  "log_queue_put item s = s\<lparr>log_queue := log_queue s @ [item]\<rparr>"

definition screenshot_queue_put :: "click_data option \<Rightarrow> observer \<Rightarrow> observer" where
  "screenshot_queue_put item s = s\<lparr>screenshot_queue := screenshot_queue s @ [item]\<rparr>"

section \<open>Keyboard and buffering\<close>

text \<open>
  \<^verbatim>\<open>_flush_key_buffer\<close>. The field \<open>buffer_flush_timer\<close> says whether the global holds a
  timer; \<open>now\<close> is the clock reading taken when \<^verbatim>\<open>_last_key_time\<close> is \<^verbatim>\<open>None\<close> or \<^verbatim>\<open>0.0\<close>.
\<close>

definition flush_timestamp :: "real \<Rightarrow> observer \<Rightarrow> int" where
  "flush_timestamp now s =
     (case last_key_time s of
        None \<Rightarrow> py_int now
      | Some t \<Rightarrow> if t = 0 then py_int now else py_int t)"

definition flush_key_buffer :: "real \<Rightarrow> observer \<Rightarrow> observer" where
  "flush_key_buffer now s =
     (let s1 = (if buffer_flush_timer s then s\<lparr>buffer_flush_timer := False\<rparr> else s)
      in if key_buffer s1 \<noteq> [] then
           let log_timestamp = flush_timestamp now s1;
               typed_string = key_buffer s1;
               s2 = output_callback (LoggedTyping typed_string) s1;
               s3 = log_queue_put (Some (TypeEv log_timestamp typed_string)) s2
           in s3\<lparr>key_buffer := []\<rparr>
         else s1)"

definition special_key_repr :: "key \<Rightarrow> string" where
  "special_key_repr k =
     (case k of
        Key name \<Rightarrow> if k = Key ''space'' then '' '' else ''['' @ name @ '']''
      | KeyCode c \<Rightarrow> [])"

definition restart_timer :: "observer \<Rightarrow> observer" where
  "restart_timer s = s\<lparr>buffer_flush_timer := True\<rparr>"

text \<open>
  Lines 169 to 175 of \<^verbatim>\<open>_on_press\<close>, which follow the flush of line 168: the key event is
  put on the log queue and the timer restarted. \<open>now\<close> is the value of \<^verbatim>\<open>_last_key_time\<close>.
\<close>

definition special_key_log :: "key \<Rightarrow> real \<Rightarrow> observer \<Rightarrow> observer" where
  "special_key_log k now s =
     restart_timer (log_queue_put (Some (KeyPress (py_int now) (special_key_repr k))) s)"

text \<open>
  \<^verbatim>\<open>_on_press\<close>: \<open>now\<close> is the reading stored in \<^verbatim>\<open>_last_key_time\<close>, \<open>now'\<close> the one a
  flush inside the handler would take.
\<close>

definition on_press :: "key \<Rightarrow> real \<Rightarrow> real \<Rightarrow> observer \<Rightarrow> observer" where
  "on_press k now now' s =
     (let s1 = s\<lparr>last_key_time := Some now\<rparr>
      in if k = PUSH_TO_TALK_KEY then
           (if \<not> is_recording s1 then
              let s2 = flush_key_buffer now' s1
              in s2\<lparr>is_recording := True, stop_recording_flag := False,
                     audio_threads_started := Suc (audio_threads_started s2)\<rparr>
            else s1)
         else
           (case k of
              KeyCode None \<Rightarrow> flush_key_buffer now' s1
            | KeyCode (Some c) \<Rightarrow> restart_timer (s1\<lparr>key_buffer := key_buffer s1 @ [c]\<rparr>)
            | Key name \<Rightarrow> special_key_log k now (flush_key_buffer now' s1)))"


text \<open>The flush timer fires \<^verbatim>\<open>KEY_BUFFER_TIMEOUT\<close> seconds after it was last started.\<close>

definition timer_fires :: "real \<Rightarrow> observer \<Rightarrow> observer" where
  "timer_fires now s = (if buffer_flush_timer s then flush_key_buffer now s else s)"

definition on_click :: "int \<Rightarrow> int \<Rightarrow> string \<Rightarrow> bool \<Rightarrow> real \<Rightarrow> observer \<Rightarrow> observer" where
  "on_click x y button pressed now s =
     (if pressed then
        screenshot_queue_put
          (Some \<lparr>cd_timestamp = py_int now, cd_button = button, cd_x = x, cd_y = y\<rparr>) s
      else s)"

section \<open>Screenshots\<close>

text \<open>Lines 82 to 85 of \<^verbatim>\<open>_safe_grab_region\<close>: the region asked of the screen grabber.\<close>

definition clamp_region :: "monitor \<Rightarrow> int \<Rightarrow> int \<Rightarrow> region" where
  "clamp_region mon x y =
     (let half_size = REGION_SIZE div 2;
          top = max (m_top mon) (min (y - half_size) (m_top mon + m_height mon - REGION_SIZE));
          left = max (m_left mon) (min (x - half_size) (m_left mon + m_width mon - REGION_SIZE))
      in \<lparr>r_top = top, r_left = left, r_width = REGION_SIZE, r_height = REGION_SIZE\<rparr>)"

text \<open>
  What the screen does at one click: the monitor list of the grabber, and whether the
  full-screen shot, the region grab and the PNG encoding succeed or raise.
\<close>

record capture_env =
  monitors :: "monitor list"
  shot_ok :: bool
  grab_ok :: bool
  to_png_ok :: bool

text \<open>An image returned by the grabber is identified by the region it shows.\<close>

definition safe_grab_region :: "capture_env \<Rightarrow> int \<Rightarrow> int \<Rightarrow> observer \<Rightarrow> region option \<times> observer" where
  "safe_grab_region env x y s =
     (if length (monitors env) < 2 then (None, output_callback NoPrimaryMonitor s)
      else
        let region = clamp_region (monitors env ! 1) x y
        in if grab_ok env then (Some region, s)
           else (None, output_callback (ErrorGrabbingRegion region) s))"

fun str_nat :: "nat \<Rightarrow> string" where
  "str_nat n = (if n < 10 then [char_of (48 + n)] else str_nat (n div 10) @ [char_of (48 + n mod 10)])"

declare str_nat.simps [simp del]

definition str_int :: "int \<Rightarrow> string" where
  "str_int i = (if i < 0 then CHR ''-'' # str_nat (nat (- i)) else str_nat (nat i))"

definition replace_backslash :: "string \<Rightarrow> string" where
  "replace_backslash p = map (\<lambda>c. if c = CHR 0x5C then CHR ''/'' else c) p"

text \<open>
  \<^verbatim>\<open>os.path.join(DATA_DIR, f"{timestamp}{ending}").replace("\\", "/")\<close>, with the separator
  of the platform as \<open>sep\<close>.
\<close>

definition media_path_sep :: "char \<Rightarrow> int \<Rightarrow> string \<Rightarrow> string" where
  "media_path_sep sep timestamp ending = replace_backslash (DATA_DIR @ sep # str_int timestamp @ ending)"

definition media_path :: "int \<Rightarrow> string \<Rightarrow> string" where
  "media_path timestamp ending = media_path_sep (CHR ''/'') timestamp ending"

text \<open>The body of the loop of \<^verbatim>\<open>_screenshot_worker\<close> for one dequeued click (lines 101 to 118).\<close>

definition process_click :: "capture_env \<Rightarrow> click_data \<Rightarrow> observer \<Rightarrow> observer" where
  "process_click env click s =
     (let timestamp = cd_timestamp click;
          x = cd_x click;
          y = cd_y click;
          fs_path = media_path timestamp ''_fullscreen.png'';
          region_path = media_path timestamp ''_region.png'';
          (fs, s1) = (if shot_ok env then (Some fs_path, s\<lparr>media_files := media_files s @ [fs_path]\<rparr>)
                      else (None, output_callback ErrorCapturingFullScreen s));
          (region_img, s2) = safe_grab_region env x y s1;
          (rp, s3) = (case region_img of
                        Some img \<Rightarrow>
                          if to_png_ok env
                          then (Some region_path, s2\<lparr>media_files := media_files s2 @ [region_path]\<rparr>)
                          else (None, output_callback ErrorSavingRegionImage s2)
                      | None \<Rightarrow> (None, s2))
      in log_queue_put (Some (Click timestamp (cd_button click) x y fs rp)) s3)"

text \<open>
  One move of the screenshot worker: the loop test, or the \<^verbatim>\<open>get\<close> that follows it. A
  \<^verbatim>\<open>get\<close> on an empty queue is the timeout (\<^verbatim>\<open>queue.Empty\<close>, then \<^verbatim>\<open>continue\<close>).
\<close>

definition screenshot_worker_step :: "capture_env \<Rightarrow> observer \<Rightarrow> observer" where
  "screenshot_worker_step env s =
     (case screenshot_thread s of
        AtLoopTest \<Rightarrow>
          if observer_stop_event s
          then output_callback ScreenshotWorkerStopping (s\<lparr>screenshot_thread := Finished\<rparr>)
          else s\<lparr>screenshot_thread := InGet\<rparr>
      | InGet \<Rightarrow>
          (case screenshot_queue s of
             [] \<Rightarrow> s\<lparr>screenshot_thread := AtLoopTest\<rparr>
           | None # q \<Rightarrow>
               output_callback ScreenshotWorkerStopping
                 (s\<lparr>screenshot_queue := q, screenshot_thread := Finished\<rparr>)
           | Some click # q \<Rightarrow>
               (process_click env click (s\<lparr>screenshot_queue := q\<rparr>))\<lparr>screenshot_thread := AtLoopTest\<rparr>)
      | NotStarted \<Rightarrow> s
      | Finished \<Rightarrow> s)"

section \<open>Logging\<close>

text \<open>The path fields of an event, with backslashes replaced (lines 52 to 54).\<close>

fun normalize_paths :: "event \<Rightarrow> event" where
  "normalize_paths (Click t b x y fs rp) =
     Click t b x y (map_option replace_backslash fs) (map_option replace_backslash rp)"
| "normalize_paths (AudioCommand t p d) = AudioCommand t (replace_backslash p) d"
| "normalize_paths (TypeEv t txt) = TypeEv t txt"
| "normalize_paths (KeyPress t k) = KeyPress t k"

text \<open>
  \<^verbatim>\<open>_log_event\<close>: \<open>write_ok\<close> says whether opening and appending to the log file
  succeeds; a failure is caught and reported. The field \<open>log_file\<close> holds the lines of
  the file, each as the event it serialises.
\<close>

definition log_event :: "bool \<Rightarrow> event \<Rightarrow> observer \<Rightarrow> observer" where
  "log_event write_ok event_data s =
     (if write_ok then s\<lparr>log_file := log_file s @ [normalize_paths event_data]\<rparr>
      else output_callback ErrorLoggingEvent s)"

text \<open>One move of \<^verbatim>\<open>_log_worker\<close>: the loop test, or the \<^verbatim>\<open>get\<close> that follows it.\<close>

definition log_worker_step :: "bool \<Rightarrow> observer \<Rightarrow> observer" where
  "log_worker_step write_ok s =
     (case log_thread s of
        AtLoopTest \<Rightarrow>
          if observer_stop_event s
          then output_callback LogWorkerStopping (s\<lparr>log_thread := Finished\<rparr>)
          else s\<lparr>log_thread := InGet\<rparr>
      | InGet \<Rightarrow>
          (case log_queue s of
             [] \<Rightarrow> s\<lparr>log_thread := AtLoopTest\<rparr>
           | None # q \<Rightarrow>
               output_callback LogWorkerStopping (s\<lparr>log_queue := q, log_thread := Finished\<rparr>)
           | Some event # q \<Rightarrow>
               (log_event write_ok event (s\<lparr>log_queue := q\<rparr>))\<lparr>log_thread := AtLoopTest\<rparr>)
      | NotStarted \<Rightarrow> s
      | Finished \<Rightarrow> s)"

text \<open>The log worker making one move for each element of a list of write outcomes.\<close>

fun log_worker_run :: "bool list \<Rightarrow> observer \<Rightarrow> observer" where
  "log_worker_run [] s = s"
| "log_worker_run (w # ws) s = log_worker_run ws (log_worker_step w s)"






section \<open>Audio recording\<close>

text \<open>
  The duration is \<^verbatim>\<open>round(len(recording) / AUDIO_SAMPLE_RATE, 2)\<close>, computed in double
  precision. A double is modelled by the real number it stands for.
\<close>

fun bit_length :: "nat \<Rightarrow> nat" where
  "bit_length n = (if n = 0 then 0 else Suc (bit_length (n div 2)))"

declare bit_length.simps [simp del]

text \<open>The integer nearest to \<open>a / b\<close>, a tie going to the even one.\<close>

definition round_half_even :: "nat \<Rightarrow> nat \<Rightarrow> nat" where
  "round_half_even a b =
     (let q = a div b; r = a mod b
      in if 2 * r < b then q else if b < 2 * r then q + 1 else if even q then q else q + 1)"

text \<open>
  \<^verbatim>\<open>n / d\<close> for two non-negative integers, \<open>d\<close> positive: the double nearest to the
  quotient, a tie going to the even mantissa. With \<open>2 ^ e \<le> n / d < 2 ^ (e + 1)\<close> the
  quotient is rounded to a multiple of \<open>2 ^ (e - 52)\<close>, which gives the 53 bits of a
  double (the quotients of this program are far from the subnormal and the infinite
  doubles).
\<close>

definition py_true_div :: "nat \<Rightarrow> nat \<Rightarrow> real" where
  "py_true_div n d =
     (if n = 0 then 0
      else
        let e0 = int (bit_length n) - int (bit_length d);
            e = (if 0 \<le> e0 then (if d * 2 ^ nat e0 \<le> n then e0 else e0 - 1)
                 else (if d \<le> n * 2 ^ nat (- e0) then e0 else e0 - 1));
            shift = 52 - e
        in if 0 \<le> shift
           then real (round_half_even (n * 2 ^ nat shift) d) / 2 ^ nat shift
           else real (round_half_even n (d * 2 ^ nat (- shift))) * 2 ^ nat (- shift))"

text \<open>
  \<^verbatim>\<open>round(v, 2)\<close> of a double \<open>v\<close>: the multiple of one hundredth nearest to the exact
  value of \<open>v\<close>, a tie going to the even one. The result is the decimal that the log
  line shows.
\<close>

definition py_round2 :: "real \<Rightarrow> real" where
  "py_round2 v =
     (let scaled = v * 100; lower = \<lfloor>scaled\<rfloor>; frac = scaled - of_int lower
      in of_int (if frac < 1 / 2 then lower
                 else if 1 / 2 < frac then lower + 1
                 else if even lower then lower else lower + 1) / 100)"









fun is_key_press :: "event option \<Rightarrow> bool" where
  "is_key_press (Some (KeyPress t k)) = True"
| "is_key_press other = False"

fun is_type_event :: "event option \<Rightarrow> bool" where
  "is_type_event (Some (TypeEv t txt)) = True"
| "is_type_event other = False"

fun is_empty_type :: "event option \<Rightarrow> bool" where
  "is_empty_type (Some (TypeEv t txt)) = (txt = [])"
| "is_empty_type other = False"

section \<open>The controller\<close>

datatype error = OSError

text \<open>
  \<^verbatim>\<open>start_observer_func\<close> up to its loop (lines 243 to 265). \<open>dirs_ok\<close> says whether
  \<^verbatim>\<open>os.makedirs\<close> succeeds; its exception is not caught.
\<close>

definition startup :: "bool \<Rightarrow> observer \<Rightarrow> error + observer" where
  "startup dirs_ok s =
     (let s1 = output_callback PushToTalkKeyIs (output_callback LogFileIs (output_callback StartingObserver s))
      in if \<not> dirs_ok then Inl OSError
         else
           let s2 = s1\<lparr>observer_stop_event := False\<rparr>;
               s3 = s2\<lparr>log_thread := AtLoopTest, screenshot_thread := AtLoopTest\<rparr>;
               s4 = s3\<lparr>mouse_listener := True, keyboard_listener := True\<rparr>
           in Inr (output_callback ObserverRunning s4))"

definition stop_observer_func :: "observer \<Rightarrow> observer" where
  "stop_observer_func s = (output_callback StopSignalReceived s)\<lparr>observer_stop_event := True\<rparr>"

text \<open>
  The supervising loop (lines 268 to 274). \<open>others k\<close> is what the other threads do to
  the shared state during the \<open>k\<close>-th \<^verbatim>\<open>time.sleep(1)\<close>. A loop that never sees the stop
  event never returns: the result is \<open>None\<close>.
\<close>

partial_function (option) supervise :: "(nat \<Rightarrow> observer \<Rightarrow> observer) \<Rightarrow> nat \<Rightarrow> observer \<Rightarrow> observer option" where
  "supervise others k s =
     (if observer_stop_event s then Some s else supervise others (Suc k) (others k s))"

text \<open>
  The shared state \<open>n\<close> tests after the \<open>k\<close>-th test of the loop, which found it in
  state \<open>s\<close>.
\<close>

primrec poll_state :: "(nat \<Rightarrow> observer \<Rightarrow> observer) \<Rightarrow> nat \<Rightarrow> nat \<Rightarrow> observer \<Rightarrow> observer" where
  "poll_state others k 0 s = s"
| "poll_state others k (Suc n) s = poll_state others (Suc k) n (others k s)"

text \<open>
  What the two workers do while the controller waits in a \<^verbatim>\<open>join\<close>: a list of worker
  moves, the thread joined having finished or the timeout having passed at its end.
\<close>

datatype worker_move = LogWorkerMove bool | ScreenshotWorkerMove capture_env

fun make_move :: "worker_move \<Rightarrow> observer \<Rightarrow> observer" where
  "make_move (LogWorkerMove write_ok) s = log_worker_step write_ok s"
| "make_move (ScreenshotWorkerMove env) s = screenshot_worker_step env s"

definition is_alive :: "thread_state \<Rightarrow> bool" where
  "is_alive t = (t = AtLoopTest \<or> t = InGet)"

definition join_thread :: "thread_state \<Rightarrow> worker_move list \<Rightarrow> observer \<Rightarrow> observer" where
  "join_thread t moves s = (if is_alive t then fold make_move moves s else s)"

text \<open>No other thread touches the shared state: \<^verbatim>\<open>stop_observer_func\<close> is never called.\<close>

definition no_activity :: "nat \<Rightarrow> observer \<Rightarrow> observer" where
  "no_activity k s = s"

text \<open>The steps of the cleanup (lines 277 to 295), one definition for each.\<close>

definition stop_listeners :: "observer \<Rightarrow> observer" where
  "stop_listeners s =
     (let s1 = (if mouse_listener s then s\<lparr>mouse_listener := False\<rparr> else s)
      in if keyboard_listener s1 then s1\<lparr>keyboard_listener := False\<rparr> else s1)"

definition signal_workers :: "observer \<Rightarrow> observer" where
  "signal_workers s = log_queue_put None (screenshot_queue_put None s)"

definition join_workers :: "worker_move list \<Rightarrow> worker_move list \<Rightarrow> observer \<Rightarrow> observer" where
  "join_workers during_first during_second s =
     (let s1 = output_callback WaitingForWorkers s;
          s2 = join_thread (screenshot_thread s1) during_first s1
      in join_thread (log_thread s2) during_second s2)"

definition final_flush :: "real \<Rightarrow> observer \<Rightarrow> observer" where
  "final_flush now s = flush_key_buffer now (output_callback FlushingFinalKeyBuffer s)"

definition shutdown_workers :: "worker_move list \<Rightarrow> worker_move list \<Rightarrow> observer \<Rightarrow> observer" where
  "shutdown_workers during_first during_second s =
     (let s1 = output_callback MainLoopReceivedStop s;
          s2 = stop_listeners s1;
          s3 = signal_workers s2
      in join_workers during_first during_second s3)"

definition cleanup :: "worker_move list \<Rightarrow> worker_move list \<Rightarrow> real \<Rightarrow> observer \<Rightarrow> observer" where
  "cleanup during_first during_second now s =
     (let s4 = shutdown_workers during_first during_second s;
          s5 = final_flush now s4
      in output_callback ObserverStopped s5)"

text \<open>\<^verbatim>\<open>start_observer_func\<close>: \<open>None\<close> when it does not return.\<close>

definition start_observer_func ::
  "bool \<Rightarrow> (nat \<Rightarrow> observer \<Rightarrow> observer) \<Rightarrow> worker_move list \<Rightarrow> worker_move list \<Rightarrow> real
     \<Rightarrow> observer \<Rightarrow> (error + observer) option" where
  "start_observer_func dirs_ok others during_first during_second now s =
     (case startup dirs_ok s of
        Inl e \<Rightarrow> Some (Inl e)
      | Inr s1 \<Rightarrow>
          (case supervise others 0 s1 of
             None \<Rightarrow> None
           | Some s2 \<Rightarrow> Some (Inr (cleanup during_first during_second now s2))))"

section \<open>Scenarios\<close>

text \<open>A screen with a virtual monitor and a primary monitor, where every capture succeeds.\<close>

definition screen_ok :: capture_env where
  "screen_ok =
     \<lparr>monitors = [\<lparr>m_left = 0, m_top = 0, m_width = 1920, m_height = 1080\<rparr>,
                  \<lparr>m_left = 0, m_top = 0, m_width = 1920, m_height = 1080\<rparr>],
      shot_ok = True, grab_ok = True, to_png_ok = True\<rparr>"

text \<open>A primary monitor of 80 by 80 pixels.\<close>

definition small_monitor :: monitor where
  "small_monitor = \<lparr>m_left = 0, m_top = 0, m_width = 80, m_height = 80\<rparr>"

definition screen_small :: capture_env where
  "screen_small = \<lparr>monitors = [small_monitor, small_monitor], shot_ok = True, grab_ok = True, to_png_ok = True\<rparr>"

text \<open>The state in which \<^verbatim>\<open>start_observer_func\<close> enters its loop when started from the initial one.\<close>

definition running_observer :: observer where
  "running_observer =
     initial_observer
       \<lparr>mouse_listener := True, keyboard_listener := True,
        log_thread := AtLoopTest, screenshot_thread := AtLoopTest,
        output_log := [StartingObserver, LogFileIs, PushToTalkKeyIs, ObserverRunning]\<rparr>"

text \<open>
  During the first sleep of the loop the user types \<^verbatim>\<open>a\<close> at time 10, and \<^verbatim>\<open>stop_observer_func\<close>
  is called before the idle window of the buffer has passed.
\<close>

definition typing_then_stop :: "nat \<Rightarrow> observer \<Rightarrow> observer" where
  "typing_then_stop k s =
     (if k = 0 then stop_observer_func (on_press (KeyCode (Some (CHR ''a''))) 10 10 s) else s)"



text \<open>A click at \<open>(100, 200)\<close> on a screen whose full-screen shot and region grab both fail.\<close>

definition screen_failing :: capture_env where
  "screen_failing = screen_ok\<lparr>shot_ok := False, grab_ok := False\<rparr>"

definition click_waiting :: observer where
  "click_waiting =
     running_observer
       \<lparr>screenshot_thread := InGet,
        screenshot_queue := [Some \<lparr>cd_timestamp = 10, cd_button = ''Button.left'', cd_x = 100, cd_y = 200\<rparr>]\<rparr>"



text \<open>
  Two states that the log writer cannot tell apart: it stands at the same place with the
  same log and stop event, and, while it is alive, both queues hold a sentinel and agree
  on what comes before the first one.
\<close>

definition same_for_writer :: "observer \<Rightarrow> observer \<Rightarrow> bool" where
  "same_for_writer a b =
     (log_thread a = log_thread b \<and> log_file a = log_file b
      \<and> observer_stop_event a = observer_stop_event b
      \<and> (\<not> is_alive (log_thread b)
          \<or> (None \<in> set (log_queue a) \<and> None \<in> set (log_queue b)
              \<and> takeWhile (\<lambda>i. i \<noteq> None) (log_queue a) = takeWhile (\<lambda>i. i \<noteq> None) (log_queue b))))"

definition writer_signalled :: "observer \<Rightarrow> bool" where
  "writer_signalled s = (\<not> is_alive (log_thread s) \<or> None \<in> set (log_queue s))"

section \<open>Lemmas\<close>

lemmas key_defs = flush_key_buffer_def flush_timestamp_def on_press_def output_callback_def
  special_key_log_def log_queue_put_def restart_timer_def PUSH_TO_TALK_KEY_def special_key_repr_def Let_def

lemmas controller_defs = start_observer_func_def startup_def cleanup_def shutdown_workers_def
  stop_listeners_def signal_workers_def join_workers_def join_thread_def final_flush_def
  stop_observer_func_def screenshot_queue_put_def is_alive_def

lemmas worker_defs = log_worker_step_def log_event_def screenshot_worker_step_def

lemma startup_initial: "startup True initial_observer = Inr running_observer"
  by (simp add: startup_def running_observer_def initial_observer_def output_callback_def Let_def)

subsection \<open>The supervising loop\<close>

lemma supervise_Some_stop:
  assumes ret: "supervise others k s = Some y"
  shows "\<exists>n. observer_stop_event (poll_state others k n s) \<and> y = poll_state others k n s"
proof (rule supervise.raw_induct
    [where P = "\<lambda>others k s y. \<exists>n. observer_stop_event (poll_state others k n s) \<and> y = poll_state others k n s",
     OF _ ret])
  fix f :: "(nat \<Rightarrow> observer \<Rightarrow> observer) \<Rightarrow> nat \<Rightarrow> observer \<Rightarrow> observer option"
  fix others k s y
  assume IH: "\<And>others k s y. f others k s = Some y \<Longrightarrow>
      \<exists>n. observer_stop_event (poll_state others k n s) \<and> y = poll_state others k n s"
  assume body: "(if observer_stop_event s then Some s else f others (Suc k) (others k s)) = Some y"
  show "\<exists>n. observer_stop_event (poll_state others k n s) \<and> y = poll_state others k n s"
  proof (cases "observer_stop_event s")
    case True
    with body have "y = s" by simp
    with True show ?thesis by (intro exI [of _ 0]) simp
  next
    case False
    with body have "f others (Suc k) (others k s) = Some y" by simp
    from IH [OF this] obtain n where "observer_stop_event (poll_state others (Suc k) n (others k s))"
      "y = poll_state others (Suc k) n (others k s)" by blast
    then show ?thesis by (intro exI [of _ "Suc n"]) simp
  qed
qed

lemma supervise_now: "observer_stop_event s \<Longrightarrow> supervise others k s = Some s"
  by (subst supervise.simps) simp

lemma supervise_later:
  "\<not> observer_stop_event s \<Longrightarrow> supervise others k s = supervise others (Suc k) (others k s)"
  by (subst supervise.simps) simp

lemma supervise_returns:
  "observer_stop_event (poll_state others k n s) \<Longrightarrow> \<exists>y. supervise others k s = Some y"
proof (induction n arbitrary: k s)
  case 0
  then show ?case by (simp add: supervise_now)
next
  case (Suc n)
  show ?case
  proof (cases "observer_stop_event s")
    case True
    then show ?thesis by (simp add: supervise_now)
  next
    case False
    from Suc.prems have "observer_stop_event (poll_state others (Suc k) n (others k s))" by simp
    from Suc.IH [OF this] obtain y where "supervise others (Suc k) (others k s) = Some y" by blast
    with False show ?thesis by (simp add: supervise_later)
  qed
qed

lemma supervise_None_iff:
  "(supervise others k s = None) = (\<forall>n. \<not> observer_stop_event (poll_state others k n s))"
proof
  assume "supervise others k s = None"
  then show "\<forall>n. \<not> observer_stop_event (poll_state others k n s)"
    using supervise_returns [of others k _ s] by fastforce
next
  assume never: "\<forall>n. \<not> observer_stop_event (poll_state others k n s)"
  show "supervise others k s = None"
  proof (cases "supervise others k s")
    case None
    then show ?thesis .
  next
    case (Some y)
    from supervise_Some_stop [OF this] never show ?thesis by blast
  qed
qed

lemma poll_no_activity: "poll_state no_activity k n s = s"
  by (induction n arbitrary: k) (simp_all add: no_activity_def)

lemma supervise_no_activity: "\<not> observer_stop_event s \<Longrightarrow> supervise no_activity k s = None"
  by (simp add: supervise_None_iff poll_no_activity)

subsection \<open>The log worker\<close>


lemma log_step_stop [simp]: "observer_stop_event (log_worker_step w s) = observer_stop_event s"
  by (simp add: log_worker_step_def log_event_def output_callback_def
      split: thread_state.splits list.splits option.splits)

subsection \<open>The audio session\<close>







lemma supervise_first:
  "observer_stop_event (poll_state others k n s) \<Longrightarrow>
   (\<forall>m<n. \<not> observer_stop_event (poll_state others k m s)) \<Longrightarrow>
   supervise others k s = Some (poll_state others k n s)"
proof (induction n arbitrary: k s)
  case 0
  then show ?case by (simp add: supervise_now)
next
  case (Suc n)
  from Suc.prems(2) have now: "\<not> observer_stop_event s" by force
  have later: "\<forall>m<n. \<not> observer_stop_event (poll_state others (Suc k) m (others k s))"
  proof (intro allI impI)
    fix m assume "m < n"
    then have "Suc m < Suc n" by simp
    with Suc.prems(2) have "\<not> observer_stop_event (poll_state others k (Suc m) s)" by blast
    then show "\<not> observer_stop_event (poll_state others (Suc k) m (others k s))" by simp
  qed
  from Suc.prems(1) have "observer_stop_event (poll_state others (Suc k) n (others k s))" by simp
  from Suc.IH [OF this later] now show ?case by (simp add: supervise_later)
qed

subsection \<open>The final flush and the log writer\<close>

lemma same_for_writer_step:
  assumes "same_for_writer a b"
  shows "same_for_writer (log_worker_step w a) (log_worker_step w b)"
proof (cases "log_thread b")
  case NotStarted
  with assms show ?thesis by (simp add: same_for_writer_def log_worker_step_def is_alive_def)
next
  case AtLoopTest
  with assms show ?thesis
    by (auto simp: same_for_writer_def log_worker_step_def is_alive_def output_callback_def)
next
  case Finished
  with assms show ?thesis by (simp add: same_for_writer_def log_worker_step_def is_alive_def)
next
  case InGet
  with assms have ta: "log_thread a = InGet" and lf: "log_file a = log_file b"
    and st: "observer_stop_event a = observer_stop_event b"
    and na: "None \<in> set (log_queue a)" and nb: "None \<in> set (log_queue b)"
    and tw: "takeWhile (\<lambda>i. i \<noteq> None) (log_queue a) = takeWhile (\<lambda>i. i \<noteq> None) (log_queue b)"
    by (auto simp: same_for_writer_def is_alive_def)
  from na obtain xa qa where qa: "log_queue a = xa # qa" by (cases "log_queue a") auto
  from nb obtain xb qb where qb: "log_queue b = xb # qb" by (cases "log_queue b") auto
  show ?thesis
  proof (cases xb)
    case None
    with tw qa qb have "xa = None" by (cases xa) auto
    with None qa qb ta InGet lf st show ?thesis
      by (simp add: same_for_writer_def log_worker_step_def is_alive_def output_callback_def)
  next
    case (Some e)
    with tw qa qb have xa: "xa = Some e" and tw': "takeWhile (\<lambda>i. i \<noteq> None) qa = takeWhile (\<lambda>i. i \<noteq> None) qb"
      by (cases xa; auto)+
    from na nb qa qb xa Some have "None \<in> set qa" "None \<in> set qb" by auto
    with Some xa qa qb ta InGet lf st tw' show ?thesis
      by (simp add: same_for_writer_def log_worker_step_def log_event_def is_alive_def output_callback_def)
  qed
qed

lemma same_for_writer_run:
  "same_for_writer a b \<Longrightarrow> same_for_writer (log_worker_run ws a) (log_worker_run ws b)"
  by (induction ws arbitrary: a b) (simp_all add: same_for_writer_step)

lemma writer_signalled_move: "writer_signalled s \<Longrightarrow> writer_signalled (make_move m s)"
proof (cases m)
  case (LogWorkerMove w)
  assume "writer_signalled s"
  then show ?thesis unfolding LogWorkerMove
    by (auto simp: writer_signalled_def is_alive_def log_worker_step_def log_event_def output_callback_def
        split: thread_state.splits list.splits option.splits)
next
  case (ScreenshotWorkerMove env)
  assume "writer_signalled s"
  then show ?thesis unfolding ScreenshotWorkerMove
    by (auto simp: writer_signalled_def is_alive_def screenshot_worker_step_def process_click_def
        safe_grab_region_def log_queue_put_def output_callback_def Let_def
        split: thread_state.splits list.splits option.splits)
qed

lemma writer_signalled_moves: "writer_signalled s \<Longrightarrow> writer_signalled (fold make_move ms s)"
  by (induction ms arbitrary: s) (simp_all add: writer_signalled_move)

lemma writer_signalled_shutdown: "writer_signalled (shutdown_workers d1 d2 s)"
proof -
  have "writer_signalled (output_callback WaitingForWorkers
          (signal_workers (stop_listeners (output_callback MainLoopReceivedStop s))))"
    by (simp add: writer_signalled_def signal_workers_def log_queue_put_def screenshot_queue_put_def
        output_callback_def)
  then show ?thesis
    by (simp add: shutdown_workers_def join_workers_def join_thread_def Let_def writer_signalled_moves)
qed

lemma final_flush_same_for_writer:
  "writer_signalled s \<Longrightarrow> same_for_writer (output_callback ObserverStopped (final_flush now s)) s"
  by (auto simp: writer_signalled_def same_for_writer_def final_flush_def key_defs)

text \<open>
  Whatever the workers did while the controller waited for them, and however many moves
  the log writer still makes after the cleanup, the log is what it would have been without
  the final flush.
\<close>

lemma final_flush_never_reaches_log:
  "log_file (log_worker_run ws (cleanup d1 d2 now s))
     = log_file (log_worker_run ws (shutdown_workers d1 d2 s))"
proof -
  have "same_for_writer (cleanup d1 d2 now s) (shutdown_workers d1 d2 s)"
    by (simp add: cleanup_def Let_def final_flush_same_for_writer writer_signalled_shutdown)
  then have "same_for_writer (log_worker_run ws (cleanup d1 d2 now s))
               (log_worker_run ws (shutdown_workers d1 d2 s))"
    by (rule same_for_writer_run)
  then show ?thesis by (simp add: same_for_writer_def)
qed

subsection \<open>Moves of the log writer\<close>

















subsection \<open>The end of a recording\<close>





lemma bit_length_16000: "bit_length 16000 = 14"
  by (simp add: bit_length.simps)



lemma bit_length_240: "bit_length 240 = 8"
  by (simp add: bit_length.simps)

lemma bit_length_400: "bit_length 400 = 9"
  by (simp add: bit_length.simps)

text \<open>
  The exact quotients of 80, 240 and 400 samples are 0.005, 0.015 and 0.025, each a tie
  between two hundredths; the doubles nearest to them lie above, below and above.
\<close>

lemma duration_240_samples: "py_round2 (py_true_div 240 AUDIO_SAMPLE_RATE) = 1 / 100"
  by (simp add: py_true_div_def py_round2_def round_half_even_def AUDIO_SAMPLE_RATE_def
      bit_length_240 bit_length_16000 Let_def)

lemma duration_400_samples: "py_round2 (py_true_div 400 AUDIO_SAMPLE_RATE) = 3 / 100"
  by (simp add: py_true_div_def py_round2_def round_half_even_def AUDIO_SAMPLE_RATE_def
      bit_length_400 bit_length_16000 Let_def)

subsection \<open>Puts on the log queue\<close>


section \<open>Key buffer\<close>

text \<open>
  Claim C3, as amended. A flush of a non-empty key buffer puts exactly one \<open>TypeEv\<close> on the
  log queue, with the buffer's characters as text, empties the buffer and leaves no timer.
  Its timestamp is not the time at which the first character entered the buffer: it is
  the integer part of \<^verbatim>\<open>_last_key_time\<close>, which every key press overwrites with its own
  time (the flush's own clock reading is used only when no such time is stored, or when
  it is zero).
\<close>

theorem flush_emits_type_event_with_last_key_time:
  "key_buffer s \<noteq> [] \<Longrightarrow>
     log_queue (flush_key_buffer now s) =
       log_queue s @ [Some (TypeEv (flush_timestamp now s) (key_buffer s))]
     \<and> key_buffer (flush_key_buffer now s) = []
     \<and> \<not> buffer_flush_timer (flush_key_buffer now s)
     \<and> last_key_time (on_press k t t' s) = Some t
     \<and> (t \<noteq> 0 \<longrightarrow> flush_timestamp now (on_press k t t' s) = py_int t)"
  by (simp add: key_defs split: key.splits option.splits)

theorem flush_emits_type_event_with_last_key_time_witness:
  "key_buffer (on_press (KeyCode (Some (CHR ''a''))) 10 10 initial_observer) \<noteq> []
   \<and> (11::real) \<noteq> 0
   \<and> log_queue (flush_key_buffer (23 / 2) (on_press (KeyCode (Some (CHR ''a''))) 10 10 initial_observer))
       = [Some (TypeEv 10 ''a'')]
   \<and> flush_timestamp (25 / 2)
        (on_press (KeyCode (Some (CHR ''b''))) 11 11
          (on_press (KeyCode (Some (CHR ''a''))) 10 10 initial_observer)) = 11"
proof -
  let ?s = "on_press (KeyCode (Some (CHR ''a''))) 10 10 initial_observer"
  have h: "key_buffer ?s \<noteq> []"
    by (simp add: key_defs initial_observer_def)
  have q: "log_queue ?s = []" and kb: "key_buffer ?s = ''a''" and ts: "flush_timestamp (23 / 2) ?s = 10"
    by (simp_all add: key_defs initial_observer_def py_int_def)
  have p: "py_int 11 = 11" by (simp add: py_int_def)
  from flush_emits_type_event_with_last_key_time [OF h, of "23 / 2" "KeyCode (Some (CHR ''b''))" 11 11]
    flush_emits_type_event_with_last_key_time [OF h, of "25 / 2" "KeyCode (Some (CHR ''b''))" 11 11]
  show ?thesis using h q kb ts p by simp
qed

text \<open>
  Claim C3 as stated fails: \<^verbatim>\<open>a\<close> typed at time 10 and \<^verbatim>\<open>b\<close> at time 11, one second apart
  and so within one idle window, are flushed when the timer runs out at time 12.5 as one
  event stamped 11, the time of the last key, and not 10, the time at which the first
  character entered the empty buffer.
\<close>

theorem flush_timestamp_is_not_anchor:
  "11 - 10 < KEY_BUFFER_TIMEOUT
   \<and> log_queue (timer_fires (11 + KEY_BUFFER_TIMEOUT)
      (on_press (KeyCode (Some (CHR ''b''))) 11 11
        (on_press (KeyCode (Some (CHR ''a''))) 10 10 initial_observer)))
     = [Some (TypeEv 11 ''ab'')]
   \<and> log_queue (timer_fires (11 + KEY_BUFFER_TIMEOUT)
      (on_press (KeyCode (Some (CHR ''b''))) 11 11
        (on_press (KeyCode (Some (CHR ''a''))) 10 10 initial_observer)))
     \<noteq> [Some (TypeEv 10 ''ab'')]"
  by (simp add: timer_fires_def key_defs initial_observer_def py_int_def KEY_BUFFER_TIMEOUT_def)

text \<open>
  Claim C10. On an empty key buffer \<^verbatim>\<open>_flush_key_buffer\<close> only drops the pending timer: the
  log queue and every other field stay as they are. A second flush right after a flush
  adds nothing to the log queue, so the two together add at most one \<open>TypeEv\<close>; and a
  flush never adds a \<open>TypeEv\<close> with empty text.
\<close>

theorem flush_empty_buffer_is_noop:
  "(key_buffer s = [] \<longrightarrow> flush_key_buffer now s = s\<lparr>buffer_flush_timer := False\<rparr>)
   \<and> (key_buffer s = [] \<longrightarrow> log_queue (flush_key_buffer now s) = log_queue s)
   \<and> log_queue (flush_key_buffer now' (flush_key_buffer now s)) = log_queue (flush_key_buffer now s)
   \<and> length (filter is_type_event (log_queue (flush_key_buffer now' (flush_key_buffer now s))))
        \<le> Suc (length (filter is_type_event (log_queue s)))
   \<and> filter is_empty_type (log_queue (flush_key_buffer now s)) = filter is_empty_type (log_queue s)"
  by (simp add: key_defs)

theorem flush_empty_buffer_is_noop_witness:
  "key_buffer (restart_timer initial_observer) = []
   \<and> flush_key_buffer 5 (restart_timer initial_observer) = initial_observer
   \<and> log_queue (flush_key_buffer 5 (restart_timer initial_observer)) = []"
proof -
  have h: "key_buffer (restart_timer initial_observer) = []"
    by (simp add: restart_timer_def initial_observer_def)
  have r: "(restart_timer initial_observer)\<lparr>buffer_flush_timer := False\<rparr> = initial_observer"
    and q: "log_queue (restart_timer initial_observer) = []" "log_queue initial_observer = []"
    by (simp_all add: restart_timer_def initial_observer_def)
  from flush_empty_buffer_is_noop [of "restart_timer initial_observer" 5 5]
  show ?thesis using h r q by simp
qed

text \<open>
  Claim C9, as amended. A key whose \<^verbatim>\<open>char\<close> attribute exists and is \<^verbatim>\<open>None\<close> is not the
  push-to-talk key; its press records the key time, flushes the key buffer and returns:
  whatever the log queue gains comes from that flush, and no \<open>KeyPress\<close> event is added.
  The modifier keys shift and ctrl are not such keys: they are members of \<^verbatim>\<open>keyboard.Key\<close>,
  and a press of either adds its \<open>KeyPress\<close> to the log queue.
\<close>

theorem modifier_key_only_flushes:
  "on_press (KeyCode None) now now' s = flush_key_buffer now' (s\<lparr>last_key_time := Some now\<rparr>)
   \<and> log_queue (on_press (KeyCode None) now now' s) =
       log_queue s @ (if key_buffer s = [] then []
                      else [Some (TypeEv (flush_timestamp now' (s\<lparr>last_key_time := Some now\<rparr>)) (key_buffer s))])
   \<and> filter is_key_press (log_queue (on_press (KeyCode None) now now' s))
       = filter is_key_press (log_queue s)
   \<and> filter is_key_press (log_queue (on_press (Key ''shift'') now now' s))
       = filter is_key_press (log_queue s) @ [Some (KeyPress (py_int now) ''[shift]'')]
   \<and> filter is_key_press (log_queue (on_press (Key ''ctrl'') now now' s))
       = filter is_key_press (log_queue s) @ [Some (KeyPress (py_int now) ''[ctrl]'')]"
  by (simp add: key_defs)

text \<open>
  Claim C9 as stated fails at the modifier keys it names: plain shift is the member
  \<^verbatim>\<open>Key.shift\<close> of \<^verbatim>\<open>keyboard.Key\<close>, which has no \<^verbatim>\<open>char\<close> attribute, and its press puts the
  event \<^verbatim>\<open>[shift]\<close> on the log queue; so does plain ctrl.
\<close>

theorem shift_press_emits_key_press:
  "log_queue (on_press (Key ''shift'') 10 10 initial_observer) = [Some (KeyPress 10 ''[shift]'')]
   \<and> log_queue (on_press (Key ''ctrl'') 10 10 initial_observer) = [Some (KeyPress 10 ''[ctrl]'')]"
  by (simp add: key_defs initial_observer_def py_int_def)




section \<open>Screenshot worker\<close>

text \<open>
  Claim C5, as amended. When the primary monitor is at least 100 pixels wide and 100
  pixels high, the region that \<^verbatim>\<open>_safe_grab_region\<close> grabs for a click at any \<open>(x, y)\<close>,
  inside the monitor or not, is 100 by 100 and lies within the monitor: its columns in
  \<open>[left, left + width)\<close> and its rows in \<open>[top, top + height)\<close> of the monitor.
\<close>

theorem region_within_monitor:
  "safe_grab_region env x y s = (Some r, s') \<Longrightarrow>
   REGION_SIZE \<le> m_width (monitors env ! 1) \<Longrightarrow>
   REGION_SIZE \<le> m_height (monitors env ! 1) \<Longrightarrow>
     r = clamp_region (monitors env ! 1) x y
     \<and> r_width r = 100 \<and> r_height r = 100
     \<and> m_left (monitors env ! 1) \<le> r_left r
     \<and> r_left r + r_width r \<le> m_left (monitors env ! 1) + m_width (monitors env ! 1)
     \<and> m_top (monitors env ! 1) \<le> r_top r
     \<and> r_top r + r_height r \<le> m_top (monitors env ! 1) + m_height (monitors env ! 1)"
  by (auto simp: safe_grab_region_def clamp_region_def REGION_SIZE_def Let_def split: if_splits)

theorem region_within_monitor_witness:
  "safe_grab_region screen_ok 1900 20 initial_observer
     = (Some \<lparr>r_top = 0, r_left = 1820, r_width = 100, r_height = 100\<rparr>, initial_observer)
   \<and> REGION_SIZE \<le> m_width (monitors screen_ok ! 1)
   \<and> REGION_SIZE \<le> m_height (monitors screen_ok ! 1)
   \<and> (1820::int) + 100 \<le> m_left (monitors screen_ok ! 1) + m_width (monitors screen_ok ! 1)"
proof -
  have g: "safe_grab_region screen_ok 1900 20 initial_observer
     = (Some \<lparr>r_top = 0, r_left = 1820, r_width = 100, r_height = 100\<rparr>, initial_observer)"
    by (simp add: safe_grab_region_def clamp_region_def screen_ok_def REGION_SIZE_def Let_def)
  have w: "REGION_SIZE \<le> m_width (monitors screen_ok ! 1)"
    and h: "REGION_SIZE \<le> m_height (monitors screen_ok ! 1)"
    by (simp_all add: screen_ok_def REGION_SIZE_def)
  from region_within_monitor [OF g w h] show ?thesis using g w h by simp
qed

text \<open>
  Claim C5 as stated fails on a monitor smaller than the region: on a primary monitor of
  80 by 80 pixels the click at \<open>(10, 10)\<close> is inside the monitor, and the region grabbed
  for it reaches row and column 100.
\<close>

theorem region_exceeds_small_monitor:
  "m_left small_monitor \<le> 10 \<and> 10 < m_left small_monitor + m_width small_monitor
   \<and> m_top small_monitor \<le> 10 \<and> 10 < m_top small_monitor + m_height small_monitor
   \<and> fst (safe_grab_region screen_small 10 10 initial_observer)
       = Some \<lparr>r_top = 0, r_left = 0, r_width = 100, r_height = 100\<rparr>
   \<and> \<not> (0 + 100 \<le> m_top small_monitor + m_height small_monitor)
   \<and> \<not> (0 + 100 \<le> m_left small_monitor + m_width small_monitor)"
  by (simp add: safe_grab_region_def clamp_region_def screen_small_def small_monitor_def
      REGION_SIZE_def Let_def)

text \<open>
  Claim C6. When the screenshot worker dequeues a click, it puts exactly one \<open>Click\<close> on
  the log queue, with the timestamp, button and coordinates of the click, and goes back to
  its loop test. The full-screen path is absent exactly when the shot fails, the region
  path exactly when there is no primary monitor or the grab or the encoding fails; each
  failure adds its warning to the output, and none of them keeps the event from the queue.
\<close>

theorem screenshot_worker_emits_one_click:
  assumes "screenshot_thread s = InGet" and "screenshot_queue s = Some click # q"
  shows "log_queue (screenshot_worker_step env s) =
           log_queue s @
             [Some (Click (cd_timestamp click) (cd_button click) (cd_x click) (cd_y click)
                (if shot_ok env then Some (media_path (cd_timestamp click) ''_fullscreen.png'') else None)
                (if 2 \<le> length (monitors env) \<and> grab_ok env \<and> to_png_ok env
                 then Some (media_path (cd_timestamp click) ''_region.png'') else None))]
         \<and> screenshot_thread (screenshot_worker_step env s) = AtLoopTest
         \<and> screenshot_queue (screenshot_worker_step env s) = q
         \<and> output_log (screenshot_worker_step env s) =
             output_log s
               @ (if shot_ok env then [] else [ErrorCapturingFullScreen])
               @ (if length (monitors env) < 2 then [NoPrimaryMonitor]
                  else if \<not> grab_ok env
                    then [ErrorGrabbingRegion (clamp_region (monitors env ! 1) (cd_x click) (cd_y click))]
                  else if \<not> to_png_ok env then [ErrorSavingRegionImage] else [])"
  using assms
  by (simp add: screenshot_worker_step_def process_click_def safe_grab_region_def
        output_callback_def log_queue_put_def Let_def)

theorem screenshot_worker_emits_one_click_witness:
  "screenshot_thread click_waiting = InGet
   \<and> screenshot_queue click_waiting
        = [Some \<lparr>cd_timestamp = 10, cd_button = ''Button.left'', cd_x = 100, cd_y = 200\<rparr>]
   \<and> log_queue (screenshot_worker_step screen_failing click_waiting)
        = [Some (Click 10 ''Button.left'' 100 200 None None)]
   \<and> screenshot_thread (screenshot_worker_step screen_failing click_waiting) = AtLoopTest"
proof -
  have t: "screenshot_thread click_waiting = InGet"
    and q: "screenshot_queue click_waiting
        = [Some \<lparr>cd_timestamp = 10, cd_button = ''Button.left'', cd_x = 100, cd_y = 200\<rparr>]"
    and l: "log_queue click_waiting = []"
    by (simp_all add: click_waiting_def running_observer_def initial_observer_def)
  have e: "\<not> shot_ok screen_failing" "\<not> grab_ok screen_failing"
    by (simp_all add: screen_failing_def screen_ok_def)
  from screenshot_worker_emits_one_click [OF t q, of screen_failing]
  show ?thesis using t q l e by simp
qed

section \<open>Audio session\<close>





section \<open>Controller\<close>

text \<open>
  Claim C8, as amended. \<^verbatim>\<open>start_observer_func\<close> blocks its caller: once the directories
  and threads are set up it returns if and only if some test of its loop finds the stop
  event set, and what it then returns is the state of the first such test after the
  cleanup. Without a call of \<^verbatim>\<open>stop_observer_func\<close> it never returns.
\<close>

theorem start_returns_iff_stop_observed:
  "startup True s = Inr s1 \<Longrightarrow>
     (start_observer_func True others d1 d2 now s = None)
        = (\<forall>n. \<not> observer_stop_event (poll_state others 0 n s1))
     \<and> (observer_stop_event (poll_state others 0 n s1)
          \<and> (\<forall>m<n. \<not> observer_stop_event (poll_state others 0 m s1))
        \<longrightarrow> start_observer_func True others d1 d2 now s
              = Some (Inr (cleanup d1 d2 now (poll_state others 0 n s1))))"
proof (intro conjI impI)
  assume st: "startup True s = Inr s1"
  then show "(start_observer_func True others d1 d2 now s = None)
        = (\<forall>n. \<not> observer_stop_event (poll_state others 0 n s1))"
    by (simp add: start_observer_func_def supervise_None_iff [symmetric] split: option.splits)
  assume "observer_stop_event (poll_state others 0 n s1)
          \<and> (\<forall>m<n. \<not> observer_stop_event (poll_state others 0 m s1))"
  then have "supervise others 0 s1 = Some (poll_state others 0 n s1)"
    by (simp add: supervise_first)
  with st show "start_observer_func True others d1 d2 now s
              = Some (Inr (cleanup d1 d2 now (poll_state others 0 n s1)))"
    by (simp add: start_observer_func_def)
qed

theorem start_returns_iff_stop_observed_witness:
  "startup True initial_observer = Inr running_observer
   \<and> observer_stop_event (poll_state typing_then_stop 0 (Suc 0) running_observer)
   \<and> \<not> observer_stop_event (poll_state typing_then_stop 0 0 running_observer)
   \<and> start_observer_func True typing_then_stop [] [] 11 initial_observer
       = Some (Inr (cleanup [] [] 11 (poll_state typing_then_stop 0 (Suc 0) running_observer)))"
proof -
  have a: "observer_stop_event (poll_state typing_then_stop 0 (Suc 0) running_observer)"
    by (simp add: typing_then_stop_def stop_observer_func_def output_callback_def)
  have b: "\<forall>m<Suc 0. \<not> observer_stop_event (poll_state typing_then_stop 0 m running_observer)"
    by (simp add: running_observer_def initial_observer_def)
  from start_returns_iff_stop_observed [OF startup_initial, of typing_then_stop "[]" "[]" 11 "Suc 0"]
  show ?thesis using a b startup_initial by simp
qed

text \<open>
  Claim C8 as stated fails: started with every directory in place and with no other
  thread ever setting the stop event, \<^verbatim>\<open>start_observer_func\<close> does not return.
\<close>

theorem start_blocks_without_stop:
  "start_observer_func True no_activity [] [] 0 initial_observer = None"
proof -
  have "\<not> observer_stop_event running_observer"
    by (simp add: running_observer_def initial_observer_def)
  then show ?thesis
    by (simp add: start_observer_func_def startup_initial supervise_no_activity)
qed

section \<open>Log writer and shutdown\<close>




text \<open>
  Claim C2. The cleanup runs in the order the claim gives, and its last step does flush
  the key buffer, but the flush comes after the log writer was told to stop and joined:
  the \<open>TypeEv\<close> of the trailing text is queued behind the sentinel of a writer that has
  left its loop. The user types \<^verbatim>\<open>a\<close> and \<^verbatim>\<open>stop_observer_func\<close> is called; when the
  controller reports completion the buffer is empty, the output says the text was logged,
  the event waits on the queue, and the log is empty.
\<close>

theorem final_flush_text_not_in_log:
  "map_option (map_sum id log_file)
     (start_observer_func True typing_then_stop [ScreenshotWorkerMove screen_ok]
        [LogWorkerMove True, LogWorkerMove True] 11 initial_observer)
     = Some (Inr [])
   \<and> map_option (map_sum id log_queue)
     (start_observer_func True typing_then_stop [ScreenshotWorkerMove screen_ok]
        [LogWorkerMove True, LogWorkerMove True] 11 initial_observer)
     = Some (Inr [None, Some (TypeEv 10 ''a'')])
   \<and> map_option (map_sum id log_thread)
     (start_observer_func True typing_then_stop [ScreenshotWorkerMove screen_ok]
        [LogWorkerMove True, LogWorkerMove True] 11 initial_observer)
     = Some (Inr Finished)
   \<and> map_option (map_sum id key_buffer)
     (start_observer_func True typing_then_stop [ScreenshotWorkerMove screen_ok]
        [LogWorkerMove True, LogWorkerMove True] 11 initial_observer)
     = Some (Inr [])
   \<and> map_option (map_sum id output_log)
     (start_observer_func True typing_then_stop [ScreenshotWorkerMove screen_ok]
        [LogWorkerMove True, LogWorkerMove True] 11 initial_observer)
     = Some (Inr [StartingObserver, LogFileIs, PushToTalkKeyIs, ObserverRunning, StopSignalReceived,
                  MainLoopReceivedStop, WaitingForWorkers, ScreenshotWorkerStopping, LogWorkerStopping,
                  FlushingFinalKeyBuffer, LoggedTyping ''a'', ObserverStopped])"
proof -
  have run: "\<not> observer_stop_event running_observer"
    by (simp add: running_observer_def initial_observer_def)
  have stopped: "observer_stop_event (typing_then_stop 0 running_observer)"
    by (simp add: typing_then_stop_def stop_observer_func_def output_callback_def)
  have loop: "supervise typing_then_stop 0 running_observer = Some (typing_then_stop 0 running_observer)"
    using run stopped by (simp add: supervise_later supervise_now)
  have ret: "start_observer_func True typing_then_stop [ScreenshotWorkerMove screen_ok]
        [LogWorkerMove True, LogWorkerMove True] 11 initial_observer
      = Some (Inr (cleanup [ScreenshotWorkerMove screen_ok] [LogWorkerMove True, LogWorkerMove True] 11
                 (typing_then_stop 0 running_observer)))"
    by (simp add: start_observer_func_def startup_initial loop)
  show ?thesis
    unfolding ret
    by (simp add: typing_then_stop_def running_observer_def initial_observer_def
        controller_defs worker_defs key_defs py_int_def)
qed

end
